theory Spec2Isabelle
  imports Main
begin

section \<open>JavaScript values\<close>

text \<open>
  The action works on untyped data: action inputs are strings, while the inbound
  deployment event and the kubeconfig are parsed JSON/YAML documents. A value is modelled
  as a tree. Objects are association lists of their own properties in insertion order.
  Numbers are the integers (the only numbers whose truthiness and decimal text the
  definitions below rely on); documents are trees (no object is shared between two
  places of a document).
\<close>

datatype jsval =
    JUndefined
  | JNull
  | JBool bool
  | JNum int
  | JStr string
  | JArr "jsval list"
  | JObj "(string \<times> jsval) list"

text \<open>Every exception the program can raise; \<open>try\<close>/\<open>catch\<close> works on these values.\<close>

datatype error =
    TypeError
  | MissingInput string
  | CredentialFileNotFound
  | NoContextsDefined
  | MalformedCredentialDocument
  | TemplateFileMissing string
  | UnclosedTag
  | UnsupportedTag
  | ExecFailed
  | StatusReportFailure string

definition ebind :: "error + 'a \<Rightarrow> ('a \<Rightarrow> error + 'b) \<Rightarrow> error + 'b" where
  "ebind m f = (case m of Inl e \<Rightarrow> Inl e | Inr x \<Rightarrow> f x)"

text \<open>\<open>!!v\<close>: the falsy values are undefined, null, false, 0 and the empty string.\<close>

fun truthy :: "jsval \<Rightarrow> bool" where
  "truthy JUndefined = False"
| "truthy JNull = False"
| "truthy (JBool b) = b"
| "truthy (JNum n) = (n \<noteq> 0)"
| "truthy (JStr s) = (s \<noteq> [])"
| "truthy (JArr xs) = True"
| "truthy (JObj kvs) = True"

text \<open>
  \<open>v[k]\<close>: reading a property of undefined or null raises a TypeError; an object yields
  its own property or undefined. Inherited and built-in members (\<open>length\<close>, array
  indices, prototype methods) are not modelled: the read is exact for an object receiver
  and a key that is no member of \<open>Object.prototype\<close>.
\<close>

fun get_prop :: "jsval \<Rightarrow> string \<Rightarrow> error + jsval" where
  "get_prop JUndefined k = Inl TypeError"
| "get_prop JNull k = Inl TypeError"
| "get_prop (JObj kvs) k = Inr (case map_of kvs k of Some v \<Rightarrow> v | None \<Rightarrow> JUndefined)"
| "get_prop v k = Inr JUndefined"

text \<open>
  \<open>v[k] = x\<close> (sloppy mode, the file has no strict-mode directive): a TypeError on
  undefined or null; an object gets the property replaced in place or appended; on a
  primitive the write is dropped, on an array it adds a named property that no
  serializer emits, so both leave the modelled value as it is.
\<close>

fun upd_assoc :: "(string \<times> jsval) list \<Rightarrow> string \<Rightarrow> jsval \<Rightarrow> (string \<times> jsval) list" where
  "upd_assoc [] k x = [(k, x)]"
| "upd_assoc ((k', v) # kvs) k x =
     (if k' = k then (k, x) # kvs else (k', v) # upd_assoc kvs k x)"

fun set_prop :: "jsval \<Rightarrow> string \<Rightarrow> jsval \<Rightarrow> error + jsval" where
  "set_prop JUndefined k x = Inl TypeError"
| "set_prop JNull k x = Inl TypeError"
| "set_prop (JObj kvs) k x = Inr (JObj (upd_assoc kvs k x))"
| "set_prop v k x = Inr v"

text \<open>Decimal text of an integer, as \<open>String(n)\<close> prints it below \<open>10^21\<close>.\<close>

definition digit_char :: "nat \<Rightarrow> char" where
  "digit_char d = char_of (48 + d)"

function show_nat :: "nat \<Rightarrow> string" where
  "show_nat n = (if n < 10 then [digit_char n] else show_nat (n div 10) @ [digit_char (n mod 10)])"
  by pat_completeness auto
termination
  by (relation "measure id") auto

definition show_int :: "int \<Rightarrow> string" where
  "show_int i = (if i < 0 then CHR ''-'' # show_nat (nat (- i)) else show_nat (nat i))"

fun join_with :: "string \<Rightarrow> string list \<Rightarrow> string" where
  "join_with sep [] = []"
| "join_with sep [x] = x"
| "join_with sep (x # y # ys) = x @ sep @ join_with sep (y # ys)"

text \<open>\<open>`${v}`\<close>: the string conversion a template literal applies.\<close>

fun to_string :: "jsval \<Rightarrow> string" where
  "to_string JUndefined = ''undefined''"
| "to_string JNull = ''null''"
| "to_string (JBool b) = (if b then ''true'' else ''false'')"
| "to_string (JNum n) = show_int n"
| "to_string (JStr s) = s"
| "to_string (JArr xs) =
     join_with '','' (map (\<lambda>x. if x = JUndefined \<or> x = JNull then [] else to_string x) xs)"
| "to_string (JObj kvs) = ''[object Object]''"

section \<open>Parameter resolution\<close>

text \<open>\<open>releaseName\<close> (index.js, lines 50 to 55).\<close>

definition releaseName :: "jsval \<Rightarrow> jsval \<Rightarrow> jsval" where
  "releaseName name track =
     (if track \<noteq> JStr ''stable'' then JStr (to_string name @ ''-'' @ to_string track)
      else name)"

text \<open>\<open>chartName\<close> (lines 57 to 62).\<close>

definition chartName :: "jsval \<Rightarrow> jsval" where
  "chartName name = (if name = JStr ''app'' then JStr ''/usr/src/charts/app'' else name)"

text \<open>\<open>name.replace('-', '_')\<close>: only the first occurrence is replaced.\<close>

fun replace_first :: "char \<Rightarrow> char \<Rightarrow> string \<Rightarrow> string" where
  "replace_first a b [] = []"
| "replace_first a b (c # cs) = (if c = a then b # cs else c # replace_first a b cs)"

text \<open>
  \<open>getInput\<close> (lines 103 to 125). \<open>core_getInput\<close> is the toolkit's reader of
  configured inputs (always a string, empty when the input is not set); \<open>deployment\<close>
  is \<open>github.context.payload.deployment\<close>, undefined when the run was not triggered by
  a deployment event; \<open>required\<close> tells whether \<open>options.required\<close> is set.
\<close>

definition getInput :: "(string \<Rightarrow> string) \<Rightarrow> jsval \<Rightarrow> string \<Rightarrow> bool \<Rightarrow> error + jsval" where
  "getInput core_getInput deployment name required =
     (let val0 = core_getInput name;
          val1 = (if length val0 = 0 \<and> CHR ''-'' \<in> set name
                  then core_getInput (replace_first CHR ''-'' CHR ''_'' name) else val0)
      in ebind
           (if truthy deployment then
              ebind (get_prop deployment name) (\<lambda>top.
              let val2 = (if truthy top then top else JStr val1) in
              ebind (get_prop deployment ''payload'') (\<lambda>payload.
              ebind (get_prop payload name) (\<lambda>nested.
              Inr (if truthy nested then nested else val2))))
            else Inr (JStr val1))
           (\<lambda>val. if required \<and> \<not> truthy val then Inl (MissingInput name) else Inr val))"

text \<open>
  The input fields of the action: the names \<open>run\<close> resolves with \<open>getInput\<close>
  (lines 222 to 242) and those read with \<open>core.getInput\<close> alone (lines 26, 239 and
  240). No object inherits a member of any of these names, so a property read by such a
  name sees own properties only.
\<close>

definition input_names :: "string list" where
  "input_names =
     [''track'', ''release'', ''namespace'', ''chart'', ''chart-version'', ''values'', ''task'',
      ''version'', ''value-files'', ''remove-canary'', ''helm'', ''timeout'', ''repository'',
      ''repository-password'', ''repository-username'', ''repository-alias'',
      ''kube-context'', ''kube-token'', ''dry-run'', ''secrets'', ''token'']"

text \<open>
  \<open>getValues\<close> (lines 64 to 72). \<open>typeof v === "object"\<close> holds of objects, arrays
  and null; \<open>stringify\<close> is the runtime's \<open>JSON.stringify\<close>.
\<close>

fun is_object :: "jsval \<Rightarrow> bool" where
  "is_object JNull = True"
| "is_object (JArr xs) = True"
| "is_object (JObj kvs) = True"
| "is_object v = False"

definition getValues :: "(jsval \<Rightarrow> string) \<Rightarrow> jsval \<Rightarrow> jsval" where
  "getValues stringify values =
     (if \<not> truthy values then JStr ''{}''
      else if is_object values then JStr (stringify values)
      else values)"

text \<open>
  \<open>JSON.parse\<close> is the runtime's: \<open>parse s\<close> is \<open>None\<close> where it raises a
  SyntaxError and the parsed value otherwise.
  \<open>getSecrets\<close> (lines 74 to 83).
\<close>

definition getSecrets :: "(string \<Rightarrow> jsval option) \<Rightarrow> jsval \<Rightarrow> jsval" where
  "getSecrets parse secrets =
     (case secrets of
        JStr s \<Rightarrow> (case parse s of Some v \<Rightarrow> v | None \<Rightarrow> secrets)
      | _ \<Rightarrow> secrets)"

text \<open>\<open>getValueFiles\<close> (lines 85 to 101).\<close>

definition getValueFiles :: "(string \<Rightarrow> jsval option) \<Rightarrow> jsval \<Rightarrow> jsval list" where
  "getValueFiles parse files =
     (let fileList =
            (case files of
               JStr s \<Rightarrow> (case parse s of Some v \<Rightarrow> v | None \<Rightarrow> JArr [files])
             | _ \<Rightarrow> files)
      in case fileList of
           JArr xs \<Rightarrow> filter truthy xs
         | _ \<Rightarrow> [])"

text \<open>\<open>deleteCmd\<close> (lines 152 to 157).\<close>

definition deleteCmd :: "jsval \<Rightarrow> jsval \<Rightarrow> jsval \<Rightarrow> jsval list" where
  "deleteCmd helm namespace release =
     (if helm = JStr ''helm3'' then [JStr ''delete'', JStr ''-n'', namespace, release]
      else [JStr ''delete'', JStr ''--purge'', release])"

section \<open>Rendering value files\<close>

text \<open>
  Modelled from the spec: the template engine behind \<open>renderFiles\<close>
  (\<open>Mustache.render\<close>, a library that is not under src/). The spec has a template
  language with a non-default delimiter pair (line 136 of index.js gives it: \<open>${{\<close> and
  \<open>}}\<close>) that substitutes from the data context, an undefined key giving the empty
  text. The model covers literal text and variable tags \<open>${{ a.b.c }}\<close>: the name is
  the text up to the first closing delimiter, without the white space around it; a dotted
  name walks the context, a missing or null value renders empty, any other value renders
  as its string conversion with the HTML characters escaped. A tag with no closing
  delimiter is an error. Tags that open with one of the engine's sigils (sections,
  partials, comments, unescaped values, delimiter changes) are outside the model and give
  \<open>UnsupportedTag\<close>. White space is the ASCII white space.
\<close>

definition open_tag :: string where
  "open_tag = ''${{''"

definition close_tag :: string where
  "close_tag = ''}}''"

definition is_space :: "char \<Rightarrow> bool" where
  "is_space c = (c \<in> set [CHR '' '', CHR 0x09, CHR 0x0A, CHR 0x0B, CHR 0x0C, CHR 0x0D])"

definition sigils :: string where
  "sigils = ''#^/>{&=!''"

fun find_close :: "string \<Rightarrow> (string \<times> string) option" where
  "find_close [] = None"
| "find_close (c # cs) =
     (if take 2 (c # cs) = close_tag then Some ([], drop 1 cs)
      else (case find_close cs of None \<Rightarrow> None | Some (b, a) \<Rightarrow> Some (c # b, a)))"

fun split_on :: "char \<Rightarrow> string \<Rightarrow> string list" where
  "split_on d [] = [[]]"
| "split_on d (c # cs) =
     (if c = d then [] # split_on d cs
      else (case split_on d cs of [] \<Rightarrow> [[c]] | p # ps \<Rightarrow> (c # p) # ps))"

fun walk :: "jsval \<Rightarrow> string list \<Rightarrow> jsval" where
  "walk v [] = v"
| "walk v (k # ks) = (case get_prop v k of Inl e \<Rightarrow> JUndefined | Inr x \<Rightarrow> walk x ks)"

text \<open>A name is dotted when its first dot is not its first character.\<close>

definition lookup_name :: "jsval \<Rightarrow> string \<Rightarrow> jsval" where
  "lookup_name view name =
     (if name = ''.'' then view
      else if CHR ''.'' \<in> set name \<and> hd name \<noteq> CHR ''.'' then walk view (split_on CHR ''.'' name)
      else walk view [name])"

definition escape_char :: "char \<Rightarrow> string" where
  "escape_char c =
     (if c = CHR ''&'' then ''&amp;''
      else if c = CHR ''<'' then ''&lt;''
      else if c = CHR ''>'' then ''&gt;''
      else if c = CHR 0x22 then ''&quot;''
      else if c = CHR 0x27 then ''&#39;''
      else if c = CHR ''/'' then ''&#x2F;''
      else if c = CHR 0x60 then ''&#x60;''
      else if c = CHR ''='' then ''&#x3D;''
      else [c])"

definition escapeHtml :: "string \<Rightarrow> string" where
  "escapeHtml s = concat (map escape_char s)"

definition render_name :: "jsval \<Rightarrow> string \<Rightarrow> string" where
  "render_name view name =
     (let v = lookup_name view name
      in if v = JUndefined \<or> v = JNull then [] else escapeHtml (to_string v))"

definition rstrip :: "string \<Rightarrow> string" where
  "rstrip s = rev (dropWhile is_space (rev s))"

text \<open>What follows an opening delimiter: the tag's name and the text after the tag.\<close>

definition parse_tag :: "string \<Rightarrow> error + (string \<times> string)" where
  "parse_tag s =
     (let r = dropWhile is_space s
      in if r \<noteq> [] \<and> hd r \<in> set sigils then Inl UnsupportedTag
         else (case find_close (dropWhile is_space r) of
                 None \<Rightarrow> Inl UnclosedTag
               | Some (b, a) \<Rightarrow> Inr (rstrip b, a)))"

lemma find_close_shorter: "find_close s = Some (b, a) \<Longrightarrow> length a < length s"
  by (induction s arbitrary: b a) (auto split: if_splits option.splits)

lemma parse_tag_shorter: "parse_tag s = Inr (n, a) \<Longrightarrow> length a < Suc (length s)"
proof -
  assume h: "parse_tag s = Inr (n, a)"
  then obtain b where "find_close (dropWhile is_space (dropWhile is_space s)) = Some (b, a)"
    by (auto simp: parse_tag_def Let_def split: if_splits option.splits)
  then have "length a < length (dropWhile is_space (dropWhile is_space s))"
    by (rule find_close_shorter)
  also have "\<dots> \<le> length s"
    by (meson length_dropWhile_le le_trans)
  finally show ?thesis by simp
qed

function mustache_render :: "string \<Rightarrow> jsval \<Rightarrow> error + string" where
  "mustache_render s view =
     (if s = [] then Inr []
      else if take 3 s = open_tag then
        (case parse_tag (drop 3 s) of
           Inl e \<Rightarrow> Inl e
         | Inr (name, rest) \<Rightarrow>
             (case mustache_render rest view of
                Inl e \<Rightarrow> Inl e
              | Inr out \<Rightarrow> Inr (render_name view name @ out)))
      else (case mustache_render (tl s) view of
              Inl e \<Rightarrow> Inl e
            | Inr out \<Rightarrow> Inr (hd s # out)))"
  by pat_completeness auto
termination
proof (relation "measure (\<lambda>(s, view). length s)")
  show "wf (measure (\<lambda>(s, view). length s))" by simp
next
  fix s :: string and view :: jsval and x2 x y
  assume "s \<noteq> []" "take 3 s = open_tag" "parse_tag (drop 3 s) = Inr x2" "(x, y) = x2"
  then have "parse_tag (drop 3 s) = Inr (x, y)" by simp
  then have "length y < Suc (length (drop 3 s))" by (rule parse_tag_shorter)
  moreover have "3 \<le> length s" using \<open>take 3 s = open_tag\<close>
    by (metis length_take min.cobounded1 open_tag_def length_Cons list.size(3) numeral_3_eq_3)
  ultimately show "((y, view), (s, view)) \<in> measure (\<lambda>(s, view). length s)" by simp
next
  fix s :: string and view :: jsval
  assume "s \<noteq> []" "take 3 s \<noteq> open_tag"
  then show "((tl s, view), (s, view)) \<in> measure (\<lambda>(s, view). length s)" by (cases s) auto
qed

declare mustache_render.simps [simp del]

text \<open>
  \<open>renderFiles\<close> (lines 132 to 143): every file is read, rendered and written back.
  The tasks run concurrently and \<open>Promise.all\<close> reports a failure without stopping the
  others; the model runs them in list order and keeps the first failure, which is what
  every interleaving gives when the paths are distinct. A path that is not a string is
  rejected as an invalid argument. A file is identified by the text of its path: two
  spellings of one file are two files here.
\<close>

definition renderFile :: "jsval \<Rightarrow> jsval \<Rightarrow> (string \<rightharpoonup> string) \<Rightarrow> error + (string \<rightharpoonup> string)" where
  "renderFile file data fs =
     (case file of
        JStr path \<Rightarrow>
          (case fs path of
             None \<Rightarrow> Inl (TemplateFileMissing path)
           | Some content \<Rightarrow>
               (case mustache_render content data of
                  Inl e \<Rightarrow> Inl e
                | Inr rendered \<Rightarrow> Inr (fs(path \<mapsto> rendered))))
      | _ \<Rightarrow> Inl TypeError)"

fun renderFiles :: "jsval list \<Rightarrow> jsval \<Rightarrow> (string \<rightharpoonup> string) \<Rightarrow> error option \<times> (string \<rightharpoonup> string)" where
  "renderFiles [] data fs = (None, fs)"
| "renderFiles (file # files) data fs =
     (case renderFile file data fs of
        Inl e \<Rightarrow> (Some e, snd (renderFiles files data fs))
      | Inr fs' \<Rightarrow> renderFiles files data fs')"

section \<open>Token injection into the kubeconfig\<close>

definition userName :: string where
  "userName = ''helm-deploy-action-token-user''"

definition newKubeconfigPath :: string where
  "newKubeconfigPath = ''./kubeconfig-with-token.yml''"

text \<open>
  The loop of lines 203 to 205: \<open>context.context.user = userName\<close> for every entry,
  stopping at the first entry that raises.
\<close>

fun set_users :: "jsval list \<Rightarrow> error + jsval list" where
  "set_users [] = Inr []"
| "set_users (c # cs) =
     ebind (get_prop c ''context'') (\<lambda>inner.
     ebind (set_prop inner ''user'' (JStr userName)) (\<lambda>inner'.
     ebind (set_prop c ''context'' inner') (\<lambda>c'.
     ebind (set_users cs) (\<lambda>cs'. Inr (c' # cs')))))"

text \<open>
  Lines 187 to 205 of \<open>addTokenToKubeConfig\<close>, on the parsed document. The user is
  pushed before the contexts are looked at. A document that is an array takes the users
  list as a named property and has no contexts member; a primitive drops the write and
  fails on \<open>push\<close>. Only an array has \<open>push\<close>; only an array is iterated without a
  TypeError (a non-empty string is iterable, but its characters have no \<open>context\<close>).
\<close>

definition injectToken :: "jsval \<Rightarrow> jsval \<Rightarrow> error + jsval" where
  "injectToken kubeconfigContent kubeToken =
     (case kubeconfigContent of
        JObj kvs \<Rightarrow>
          ebind (get_prop kubeconfigContent ''users'') (\<lambda>users0.
          let users = (if \<not> truthy users0 then JArr [] else users0) in
          (case users of
             JArr us \<Rightarrow>
               ebind (set_prop kubeconfigContent ''users''
                        (JArr (us @ [JObj [(''name'', JStr userName),
                                           (''user'', JObj [(''token'', kubeToken)])]]))) (\<lambda>doc1.
               ebind (get_prop doc1 ''contexts'') (\<lambda>contexts.
               if \<not> truthy contexts then Inl NoContextsDefined
               else (case contexts of
                       JArr cs \<Rightarrow>
                         ebind (set_users cs) (\<lambda>cs'. set_prop doc1 ''contexts'' (JArr cs'))
                     | _ \<Rightarrow> Inl TypeError)))
           | _ \<Rightarrow> Inl TypeError))
      | JArr xs \<Rightarrow> Inl NoContextsDefined
      | _ \<Rightarrow> Inl TypeError)"

section \<open>The run and its collaborators\<close>

text \<open>What a status report sends (lines 35 to 44).\<close>

record status_request =
  req_owner :: string
  req_repo :: string
  deployment_id :: jsval
  req_state :: string
  log_url :: string
  target_url :: string

text \<open>
  What the run leaves outside the process. The parameter echo of \<open>core.debug\<close> and the
  \<open>core.info\<close> lines only log and are left out.
\<close>

datatype effect =
    Debug string
  | Warning error
  | LogError error
  | SetFailed error
  | Exec jsval "jsval list"
  | CreateDeploymentStatus status_request

text \<open>
  The collaborators, as the run sees them: the toolkit's input reader and the event
  context, the runtime's JSON, YAML and base64 codecs, the default kubeconfig path under
  the home directory, the subprocess runner (command, arguments, \<open>ignoreReturnCode\<close>)
  and the status API client.
\<close>

record externals =
  core_getInput :: "string \<Rightarrow> string"
  payload_deployment :: jsval
  context_repo :: "error + (string \<times> string)"
  context_sha :: string
  JSON_parse :: "string \<Rightarrow> jsval option"
  JSON_stringify :: "jsval \<Rightarrow> string"
  yaml_load :: "string \<Rightarrow> error + jsval"
  yaml_dump :: "jsval \<Rightarrow> string"
  base64_decode :: "string \<Rightarrow> string"
  default_kubeconfig :: string
  exec_exec :: "jsval \<Rightarrow> jsval list \<Rightarrow> bool \<Rightarrow> error + unit"
  github_GitHub :: "string \<Rightarrow> error + unit"
  createDeploymentStatus :: "status_request \<Rightarrow> error + unit"

text \<open>The state the run mutates: the files and the process environment.\<close>

record world =
  files :: "string \<rightharpoonup> string"
  env :: "string \<rightharpoonup> string"

type_synonym 'a action = "world \<Rightarrow> (error + 'a) \<times> world \<times> effect list"

definition sbind :: "'a action \<Rightarrow> ('a \<Rightarrow> 'b action) \<Rightarrow> 'b action" where
  "sbind m f w =
     (case m w of
        (Inl e, w', t) \<Rightarrow> (Inl e, w', t)
      | (Inr x, w', t) \<Rightarrow> (case f x w' of (r, w'', t') \<Rightarrow> (r, w'', t @ t')))"

definition sreturn :: "'a \<Rightarrow> 'a action" where
  "sreturn x w = (Inr x, w, [])"

definition lift :: "error + 'a \<Rightarrow> 'a action" where
  "lift r w = (r, w, [])"

text \<open>
  \<open>addTokenToKubeConfig\<close> (lines 173 to 212); \<open>kubeconfigPath\<close> is
  \<open>process.env.KUBECONFIG\<close>, which may be unset.
\<close>

definition kubeconfig_or_default :: "externals \<Rightarrow> string option \<Rightarrow> string" where
  "kubeconfig_or_default ext kubeconfigPath =
     (case kubeconfigPath of
        None \<Rightarrow> default_kubeconfig ext
      | Some p \<Rightarrow> if p = [] then default_kubeconfig ext else p)"

definition addTokenToKubeConfig :: "externals \<Rightarrow> string option \<Rightarrow> jsval \<Rightarrow> string action" where
  "addTokenToKubeConfig ext kubeconfigPath kubeToken w =
     (let path = kubeconfig_or_default ext kubeconfigPath
      in case files w path of
           None \<Rightarrow> (Inl CredentialFileNotFound, w, [])
         | Some kubeconfigData \<Rightarrow>
             (case ebind (yaml_load ext kubeconfigData) (\<lambda>doc. injectToken doc kubeToken) of
                Inl e \<Rightarrow> (Inl e, w, [])
              | Inr doc' \<Rightarrow>
                  (Inr newKubeconfigPath,
                   w\<lparr>files := (files w)(newKubeconfigPath \<mapsto> yaml_dump ext doc')\<rparr>, [])))"

text \<open>
  \<open>status\<close> (lines 22 to 48): the body of the \<open>try\<close>, then the function with its
  \<open>catch\<close>. An exception is an Error object, so reading its message cannot raise.
\<close>

definition status_try :: "externals \<Rightarrow> string \<Rightarrow> error + effect list" where
  "status_try ext state =
     (let deployment = payload_deployment ext;
          token = core_getInput ext ''token''
      in if token = [] \<or> \<not> truthy deployment then Inr [Debug ''not setting deployment status'']
         else
           ebind (github_GitHub ext token) (\<lambda>client.
           ebind (context_repo ext) (\<lambda>(owner, repo).
           let url = ''https://github.com/'' @ owner @ ''/'' @ repo @ ''/commit/''
                       @ context_sha ext @ ''/checks'' in
           ebind (get_prop deployment ''id'') (\<lambda>ident.
           let request = \<lparr>req_owner = owner, req_repo = repo, deployment_id = ident,
                          req_state = state, log_url = url, target_url = url\<rparr> in
           ebind (createDeploymentStatus ext request) (\<lambda>done.
           Inr [CreateDeploymentStatus request])))))"

definition status :: "externals \<Rightarrow> string \<Rightarrow> unit action" where
  "status ext state w =
     (case status_try ext state of
        Inr t \<Rightarrow> (Inr (), w, t)
      | Inl error \<Rightarrow> (Inr (), w, [Warning error]))"

text \<open>
  The parameters \<open>run\<close> resolves (lines 222 to 242), under the source's names
  (\<open>values_text\<close> is the source's \<open>values\<close>).
\<close>

record params =
  track :: jsval
  appName :: jsval
  release :: jsval
  namespace :: jsval
  chart :: jsval
  chartVersion :: jsval
  values_text :: jsval
  task :: jsval
  version :: jsval
  valueFiles :: "jsval list"
  removeCanary :: jsval
  helm :: jsval
  timeout :: jsval
  repository :: jsval
  repository_password :: jsval
  repository_username :: jsval
  repository_alias :: jsval
  dryRun :: string
  secrets :: jsval
  kubeContext :: jsval
  kubeToken :: jsval

text \<open>\<open>a || b\<close>.\<close>

definition or_default :: "jsval \<Rightarrow> jsval \<Rightarrow> jsval" where
  "or_default a b = (if truthy a then a else b)"

definition resolve :: "externals \<Rightarrow> error + params" where
  "resolve ext =
     (let input = (\<lambda>name required. getInput (core_getInput ext) (payload_deployment ext) name required)
      in
      ebind (input ''track'' False) (\<lambda>v_track.
      ebind (input ''release'' True) (\<lambda>v_appName.
      ebind (input ''namespace'' True) (\<lambda>v_namespace.
      ebind (input ''chart'' True) (\<lambda>v_chart.
      ebind (input ''chart-version'' False) (\<lambda>v_chartVersion.
      ebind (input ''values'' False) (\<lambda>v_values.
      ebind (input ''task'' False) (\<lambda>v_task.
      ebind (input ''version'' False) (\<lambda>v_version.
      ebind (input ''value-files'' False) (\<lambda>v_valueFiles.
      ebind (input ''remove-canary'' False) (\<lambda>v_removeCanary.
      ebind (input ''helm'' False) (\<lambda>v_helm.
      ebind (input ''timeout'' False) (\<lambda>v_timeout.
      ebind (input ''repository'' False) (\<lambda>v_repository.
      ebind (input ''repository-password'' False) (\<lambda>v_repository_password.
      ebind (input ''repository-username'' False) (\<lambda>v_repository_username.
      ebind (input ''repository-alias'' False) (\<lambda>v_repository_alias.
      ebind (input ''kube-context'' False) (\<lambda>v_kubeContext.
      ebind (input ''kube-token'' False) (\<lambda>v_kubeToken.
      Inr \<lparr>track = or_default v_track (JStr ''stable''),
           appName = v_appName,
           release = releaseName v_appName (or_default v_track (JStr ''stable'')),
           namespace = v_namespace,
           chart = chartName v_chart,
           chartVersion = v_chartVersion,
           values_text = getValues (JSON_stringify ext) v_values,
           task = v_task,
           version = v_version,
           valueFiles = getValueFiles (JSON_parse ext) v_valueFiles,
           removeCanary = v_removeCanary,
           helm = or_default v_helm (JStr ''helm''),
           timeout = v_timeout,
           repository = v_repository,
           repository_password = v_repository_password,
           repository_username = v_repository_username,
           repository_alias = v_repository_alias,
           dryRun = core_getInput ext ''dry-run'',
           secrets = getSecrets (JSON_parse ext) (JStr (core_getInput ext ''secrets'')),
           kubeContext = v_kubeContext,
           kubeToken = v_kubeToken\<rparr>)))))))))))))))))))"

text \<open>
  The arguments of the upgrade command, as \<open>run\<close> has pushed them when it executes
  the command (lines 268 to 276, 287 to 300, 312 and 316).
\<close>

definition upgradeArgs :: "params \<Rightarrow> jsval list" where
  "upgradeArgs p =
     [JStr ''upgrade'', release p, chart p, JStr ''--install'', JStr ''--wait'', JStr ''--atomic'',
      JStr (''--namespace='' @ to_string (namespace p))]
     @ (if dryRun p \<noteq> [] then [JStr ''--dry-run''] else [])
     @ (if truthy (appName p) then [JStr (''--set=app.name='' @ to_string (appName p))] else [])
     @ (if truthy (version p) then [JStr (''--set=app.version='' @ to_string (version p))] else [])
     @ (if truthy (chartVersion p) then [JStr (''--version='' @ to_string (chartVersion p))] else [])
     @ (if truthy (timeout p) then [JStr (''--timeout='' @ to_string (timeout p))] else [])
     @ map (\<lambda>f. JStr (''--values='' @ to_string f)) (valueFiles p)
     @ [JStr ''--values=./values.yml'']
     @ (if track p = JStr ''canary''
        then [JStr ''--set=service.enabled=false'', JStr ''--set=ingress.enabled=false''] else [])
     @ (if truthy (kubeContext p) then [JStr (''--kube-context='' @ to_string (kubeContext p))] else [])
     @ (if truthy (kubeToken p) \<and> helm p = JStr ''helm3''
        then [JStr (''--kube-token='' @ to_string (kubeToken p))] else [])"

definition setenv :: "string \<Rightarrow> string \<Rightarrow> unit action" where
  "setenv k v w = (Inr (), w\<lparr>env := (env w)(k \<mapsto> v)\<rparr>, [])"

text \<open>\<open>process.env.K\<close> as a condition: set and not empty.\<close>

definition env_truthy :: "world \<Rightarrow> string \<Rightarrow> bool" where
  "env_truthy w k = (case env w k of None \<Rightarrow> False | Some v \<Rightarrow> v \<noteq> [])"

text \<open>\<open>fs.writeFile\<close>: the data has to be a string.\<close>

definition writeFile :: "string \<Rightarrow> jsval \<Rightarrow> unit action" where
  "writeFile path data w =
     (case data of
        JStr s \<Rightarrow> (Inr (), w\<lparr>files := (files w)(path \<mapsto> s)\<rparr>, [])
      | _ \<Rightarrow> (Inl TypeError, w, []))"

definition exec :: "externals \<Rightarrow> jsval \<Rightarrow> jsval list \<Rightarrow> bool \<Rightarrow> unit action" where
  "exec ext cmd args ignoreReturnCode w = (exec_exec ext cmd args ignoreReturnCode, w, [Exec cmd args])"

text \<open>Lines 303 to 309.\<close>

definition setupKubeconfig :: "externals \<Rightarrow> unit action" where
  "setupKubeconfig ext w =
     (if env_truthy w ''KUBECONFIG_FILE'' then
        sbind (setenv ''KUBECONFIG'' ''./kubeconfig.yml'') (\<lambda>_.
          writeFile ''./kubeconfig.yml'' (JStr (the (env w ''KUBECONFIG_FILE'')))) w
      else if env_truthy w ''KUBECONFIG_BASE64'' then
        sbind (setenv ''KUBECONFIG'' ''./kubeconfig.yml'') (\<lambda>_.
          writeFile ''./kubeconfig.yml''
            (JStr (base64_decode ext (the (env w ''KUBECONFIG_BASE64''))))) w
      else sreturn () w)"

text \<open>Lines 326 to 348.\<close>

definition addRepository :: "externals \<Rightarrow> params \<Rightarrow> unit action" where
  "addRepository ext p =
     (if truthy (repository p) \<and> truthy (repository_alias p) then
        sbind (exec ext (helm p)
                 ([JStr ''repo'', JStr ''add'']
                  @ (if truthy (repository_username p) \<and> truthy (repository_password p)
                     then [JStr ''--username'', repository_username p,
                           JStr ''--password'', repository_password p] else [])
                  @ [repository_alias p, repository p]) False) (\<lambda>_.
        exec ext (helm p) [JStr ''repo'', JStr ''update''] False)
      else sreturn ())"

definition renderStep :: "jsval list \<Rightarrow> jsval \<Rightarrow> unit action" where
  "renderStep fs data w =
     (case renderFiles fs data (files w) of
        (None, fs') \<Rightarrow> (Inr (), w\<lparr>files := fs'\<rparr>, [])
      | (Some e, fs') \<Rightarrow> (Inl e, w\<lparr>files := fs'\<rparr>, []))"

text \<open>The body of the \<open>try\<close> of \<open>run\<close> between the two status reports (lines 222 to 374).\<close>

definition deploy :: "externals \<Rightarrow> jsval action" where
  "deploy ext =
     sbind (lift (resolve ext)) (\<lambda>p.
     sbind (if helm p = JStr ''helm3''
            then sbind (setenv ''XDG_DATA_HOME'' ''/root/.helm/'') (\<lambda>_.
                 sbind (setenv ''XDG_CACHE_HOME'' ''/root/.helm/'') (\<lambda>_.
                 setenv ''XDG_CONFIG_HOME'' ''/root/.helm/''))
            else setenv ''HELM_HOME'' ''/root/.helm/'') (\<lambda>_.
     sbind (setupKubeconfig ext) (\<lambda>_.
     sbind (writeFile ''./values.yml'' (values_text p)) (\<lambda>_.
     sbind (if truthy (kubeToken p) \<and> helm p \<noteq> JStr ''helm3''
            then sbind (\<lambda>w. addTokenToKubeConfig ext (env w ''KUBECONFIG'') (kubeToken p) w)
                   (\<lambda>path. setenv ''KUBECONFIG'' path)
            else sreturn ()) (\<lambda>_.
     sbind (addRepository ext p) (\<lambda>_.
     sbind (renderStep (valueFiles p @ [JStr ''./values.yml''])
              (JObj [(''secrets'', secrets p), (''deployment'', payload_deployment ext)])) (\<lambda>_.
     sbind (if truthy (removeCanary p)
            then exec ext (helm p)
                   (deleteCmd (helm p) (namespace p) (JStr (to_string (appName p) @ ''-canary''))) True
            else sreturn ()) (\<lambda>_.
     sbind (if task p = JStr ''remove''
            then exec ext (helm p) (deleteCmd (helm p) (namespace p) (release p)) True
            else exec ext (helm p) (upgradeArgs p) False) (\<lambda>_.
     sreturn (task p))))))))))"

text \<open>
  \<open>run\<close> (lines 217 to 382): the \<open>try\<close> with its \<open>catch\<close>. The result is \<open>Inl\<close>
  only if the status report of the \<open>catch\<close> raises, which would reject the promise of
  \<open>run\<close>.
\<close>

definition run :: "externals \<Rightarrow> unit action" where
  "run ext w =
     (case sbind (status ext ''pending'') (\<lambda>_.
           sbind (deploy ext) (\<lambda>v_task.
           status ext (if v_task = JStr ''remove'' then ''inactive'' else ''success''))) w of
        (Inr u, w', t) \<Rightarrow> (Inr (), w', t)
      | (Inl error, w', t) \<Rightarrow>
          (case status ext ''failure'' w' of
             (r, w'', t') \<Rightarrow> (r, w'', t @ [LogError error, SetFailed error] @ t')))"

text \<open>The failures \<open>core.setFailed\<close> has marked in a trace.\<close>

fun failures :: "effect list \<Rightarrow> error list" where
  "failures [] = []"
| "failures (SetFailed e # t) = e # failures t"
| "failures (x # t) = failures t"

section \<open>Predicates and example data of the statements\<close>

text \<open>
  An entry of the contexts list as a kubeconfig has it: a mapping whose \<open>context\<close>
  member is a mapping (of cluster, user, namespace).
\<close>

definition context_entry :: "jsval \<Rightarrow> bool" where
  "context_entry c = (\<exists>ckvs inner. c = JObj ckvs \<and> map_of ckvs ''context'' = Some (JObj inner))"

text \<open>Whether the opening delimiter occurs in a text.\<close>

fun contains_open :: "string \<Rightarrow> bool" where
  "contains_open [] = False"
| "contains_open (c # cs) = (take 3 (c # cs) = open_tag \<or> contains_open cs)"

text \<open>
  Collaborators for the examples: the inputs, the event and the parsed kubeconfig are
  given; the status API is unreachable.
\<close>

definition example_externals :: "(string \<Rightarrow> string) \<Rightarrow> jsval \<Rightarrow> jsval \<Rightarrow> externals" where
  "example_externals inputs event doc =
     \<lparr>core_getInput = inputs,
      payload_deployment = event,
      context_repo = Inr (''acme'', ''shop''),
      context_sha = ''0a1b2c'',
      JSON_parse = (\<lambda>s. None),
      JSON_stringify = (\<lambda>v. ''{}''),
      yaml_load = (\<lambda>s. Inr doc),
      yaml_dump = to_string,
      base64_decode = (\<lambda>s. s),
      default_kubeconfig = ''/root/.kube/config'',
      exec_exec = (\<lambda>cmd args ignoreReturnCode. Inr ()),
      github_GitHub = (\<lambda>token. Inr ()),
      createDeploymentStatus = (\<lambda>request. Inl (StatusReportFailure ''503''))\<rparr>"

definition example_world :: "string \<Rightarrow> world" where
  "example_world path = \<lparr>files = [path \<mapsto> ''apiVersion: v1''], env = Map.empty\<rparr>"

definition example_contexts :: "jsval list" where
  "example_contexts =
     [JObj [(''name'', JStr ''staging''),
            (''context'', JObj [(''cluster'', JStr ''east''), (''user'', JStr ''alice'')])],
      JObj [(''name'', JStr ''production''),
            (''context'', JObj [(''cluster'', JStr ''west'')])]]"

text \<open>Inputs whose release name and chart are the two canary flags themselves.\<close>

definition flag_inputs :: "string \<Rightarrow> string" where
  "flag_inputs n =
     (if n = ''release'' then ''--set=service.enabled=false''
      else if n = ''chart'' then ''--set=ingress.enabled=false''
      else if n = ''namespace'' then ''prod'' else [])"

text \<open>
  The request of the spec's example (release \<open>api\<close>, track \<open>canary\<close>, namespace
  \<open>prod\<close>, chart \<open>app\<close>), as \<open>resolve\<close> gives it, and the same on the stable track.
\<close>

definition canary_inputs :: "string \<Rightarrow> string" where
  "canary_inputs n =
     (if n = ''release'' then ''api''
      else if n = ''track'' then ''canary''
      else if n = ''namespace'' then ''prod''
      else if n = ''chart'' then ''app'' else [])"

definition example_request :: params where
  "example_request =
     \<lparr>track = JStr ''canary'', appName = JStr ''api'', release = JStr ''api-canary'',
      namespace = JStr ''prod'', chart = JStr ''/usr/src/charts/app'', chartVersion = JStr [],
      values_text = JStr ''{}'', task = JStr [], version = JStr [], valueFiles = [],
      removeCanary = JStr [], helm = JStr ''helm'', timeout = JStr [], repository = JStr [],
      repository_password = JStr [], repository_username = JStr [],
      repository_alias = JStr [], dryRun = [], secrets = JStr [],
      kubeContext = JStr [], kubeToken = JStr []\<rparr>"

definition stable_request :: params where
  "stable_request = example_request\<lparr>track := JStr ''stable'', release := JStr ''api''\<rparr>"

text \<open>
  The text \<open>["a.yml","b.yml"]\<close> of the spec's example, and \<open>JSON.parse\<close> on the
  example's texts: that text is the array of its two strings; \<open>c.yml\<close> and the empty
  text are no JSON.
\<close>

definition example_files_text :: string where
  "example_files_text =
     ''['' @ [CHR 0x22] @ ''a.yml'' @ [CHR 0x22] @ '','' @ [CHR 0x22] @ ''b.yml'' @ [CHR 0x22] @ '']''"

definition example_parse :: "string \<Rightarrow> jsval option" where
  "example_parse s =
     (if s = example_files_text then Some (JArr [JStr ''a.yml'', JStr ''b.yml'']) else None)"

text \<open>A data context one of whose values is itself the text of a tag.\<close>

definition example_view :: jsval where
  "example_view =
     JObj [(''secrets'', JObj [(''a'', JStr ''${{secrets.b}}''), (''b'', JStr ''hunter2'')]),
           (''deployment'', JUndefined)]"

text \<open>An action none of whose traces marks a failure.\<close>

definition quiet :: "'a action \<Rightarrow> bool" where
  "quiet m = (\<forall>w r w' t. m w = (r, w', t) \<longrightarrow> failures t = [])"

text \<open>A deployment event with an empty payload, and inputs that configure a tracking token.\<close>

definition example_event :: jsval where
  "example_event = JObj [(''id'', JNum 42), (''payload'', JObj [])]"

definition reporting_inputs :: "string \<Rightarrow> string" where
  "reporting_inputs n =
     (if n = ''token'' then ''ghp_0123'' else canary_inputs n)"

section \<open>Release name\<close>

text \<open>
  C5. For every application name and track, the release name is the name with \<open>-\<close>
  and the track appended when the track is not \<open>stable\<close>, and the name unchanged when
  the track is \<open>stable\<close>. Stated for any two values (a template literal converts them
  to strings) and, as the claim has it, for two strings.
\<close>

theorem releaseName_track:
  "releaseName name tr
     = (if tr = JStr ''stable'' then name else JStr (to_string name @ ''-'' @ to_string tr))
   \<and> releaseName (JStr n) (JStr t) = JStr (if t = ''stable'' then n else n @ ''-'' @ t)"
  by (simp add: releaseName_def)

theorem releaseName_track_witness:
  "releaseName (JStr ''api'') (JStr ''canary'') = JStr ''api-canary''
   \<and> releaseName (JStr ''api'') (JStr ''stable'') = JStr ''api''"
  using releaseName_track [of "JStr ''api''" "JStr ''canary''" "''api''" "''canary''"]
    releaseName_track [of "JStr ''api''" "JStr ''stable''" "''api''" "''stable''"]
  by simp

section \<open>Precedence of the deployment event in \<open>getInput\<close>\<close>

lemma get_prop_truthy: "truthy v \<Longrightarrow> \<exists>x. get_prop v k = Inr x"
  by (cases v) simp_all

lemma getInput_no_event:
  "getInput inp JUndefined name required =
     (let v = (if inp name = [] \<and> CHR ''-'' \<in> set name
               then inp (replace_first CHR ''-'' CHR ''_'' name) else inp name)
      in if required \<and> v = [] then Inl (MissingInput name) else Inr (JStr v))"
  by (simp add: getInput_def ebind_def Let_def)

text \<open>
  C10. If a deployment event is present (truthy) but its \<open>payload\<close> member is absent
  or null, resolving any field raises a TypeError, whatever the configured inputs hold
  and whether or not the field is required.
\<close>

theorem getInput_no_payload_raises:
  assumes "truthy event"
    and "get_prop event ''payload'' = Inr payload"
    and "payload = JUndefined \<or> payload = JNull"
  shows "getInput inp event name required = Inl TypeError"
proof -
  obtain upper where upper: "get_prop event name = Inr upper"
    using get_prop_truthy [OF assms(1)] by blast
  have "get_prop payload name = Inl TypeError"
    using assms(3) by auto
  then show ?thesis
    using assms(1,2) upper by (simp add: getInput_def ebind_def Let_def)
qed

theorem getInput_no_payload_raises_witness:
  "getInput (\<lambda>n. ''api'') (JObj [(''id'', JNum 7)]) ''release'' True = Inl TypeError"
  by (rule getInput_no_payload_raises [where payload = JUndefined]) simp_all

text \<open>
  C1, as stated, fails: the event defines \<open>track\<close> as the empty string (its payload
  does not define it), the configured input is \<open>canary\<close>, and the resolved value is the
  configured \<open>canary\<close>, not the event's empty string.
\<close>

theorem getInput_falsy_override_counterexample:
  "get_prop (JObj [(''track'', JStr []), (''payload'', JObj [])]) ''track'' = Inr (JStr [])
   \<and> getInput (\<lambda>n. if n = ''track'' then ''canary'' else [])
        (JObj [(''track'', JStr []), (''payload'', JObj [])]) ''track'' False
      = Inr (JStr ''canary'')"
  by (simp add: getInput_def ebind_def)

text \<open>
  C1, amended. For every input field name (the names of \<open>input_names\<close>), if the event
  is an object with a nested payload object: when the payload's value for the field is
  truthy, it is the resolved value; otherwise, when the event's top-level value is truthy,
  that is the resolved value; both whatever the configured inputs and the environment
  hold. When both are falsy (left undefined, or defined as the empty string, null, 0 or
  false) the event is passed over: resolution gives exactly what it gives with no event
  at all, the configured value or the error of a required field that is not supplied.
\<close>

theorem getInput_event_precedence:
  assumes "name \<in> set input_names"
    and "map_of ev ''payload'' = Some (JObj pl)"
    and "get_prop (JObj ev) name = Inr upper"
    and "get_prop (JObj pl) name = Inr nested"
  shows "(truthy nested \<longrightarrow> getInput inp (JObj ev) name required = Inr nested)
       \<and> (\<not> truthy nested \<and> truthy upper \<longrightarrow>
            getInput inp (JObj ev) name required = Inr upper)
       \<and> (\<not> truthy nested \<and> \<not> truthy upper \<longrightarrow>
            getInput inp (JObj ev) name required = getInput inp JUndefined name required)"
  using assms(2-4) by (auto simp: getInput_def ebind_def Let_def)

theorem getInput_event_precedence_witness:
  "getInput (\<lambda>n. ''stable'') (JObj [(''payload'', JObj [(''track'', JStr ''blue'')])])
     ''track'' True = Inr (JStr ''blue'')
   \<and> getInput (\<lambda>n. ''stable'')
       (JObj [(''track'', JStr ''canary''), (''payload'', JObj [(''track'', JStr [])])])
       ''track'' False = Inr (JStr ''canary'')
   \<and> getInput (\<lambda>n. ''stable'')
       (JObj [(''track'', JNull), (''payload'', JObj [(''track'', JNum 0)])])
       ''track'' False = Inr (JStr ''stable'')
   \<and> getInput (\<lambda>n. [])
       (JObj [(''release'', JBool False), (''payload'', JObj [(''release'', JStr [])])])
       ''release'' True = Inl (MissingInput ''release'')
   \<and> getInput (\<lambda>n. [])
       (JObj [(''dry-run'', JStr ''yes''), (''payload'', JObj [])])
       ''dry-run'' False = Inr (JStr ''yes'')"
  using getInput_event_precedence [of "''track''" "[(''payload'', JObj [(''track'', JStr ''blue'')])]"
       "[(''track'', JStr ''blue'')]" JUndefined "JStr ''blue''" "\<lambda>n. ''stable''" True]
    getInput_event_precedence [of "''track''"
       "[(''track'', JStr ''canary''), (''payload'', JObj [(''track'', JStr [])])]"
       "[(''track'', JStr [])]" "JStr ''canary''" "JStr []" "\<lambda>n. ''stable''" False]
    getInput_event_precedence [of "''track''"
       "[(''track'', JNull), (''payload'', JObj [(''track'', JNum 0)])]"
       "[(''track'', JNum 0)]" JNull "JNum 0" "\<lambda>n. ''stable''" False]
    getInput_event_precedence [of "''release''"
       "[(''release'', JBool False), (''payload'', JObj [(''release'', JStr [])])]"
       "[(''release'', JStr [])]" "JBool False" "JStr []" "\<lambda>n. []" True]
    getInput_event_precedence [of "''dry-run''"
       "[(''dry-run'', JStr ''yes''), (''payload'', JObj [])]"
       "[]" "JStr ''yes''" JUndefined "\<lambda>n. []" False]
    getInput_no_event [of "\<lambda>n. ''stable''" "''track''" False]
    getInput_no_event [of "\<lambda>n. []" "''release''" True]
  by (simp add: input_names_def)

text \<open>
  C4, as stated, fails: \<open>track\<close> is defined at the top level (\<open>canary\<close>) and in the
  payload (the empty string), and the resolved value is the top-level one.
\<close>

theorem getInput_nested_falsy_counterexample:
  "get_prop (JObj [(''track'', JStr [])]) ''track'' = Inr (JStr [])
   \<and> getInput (\<lambda>n. [])
        (JObj [(''track'', JStr ''canary''), (''payload'', JObj [(''track'', JStr [])])])
        ''track'' False
      = Inr (JStr ''canary'')"
  by (simp add: getInput_def ebind_def)

text \<open>
  C4, amended. For every field name defined both at the top level of the event and in
  its nested payload object, resolution yields the payload's value whenever that value
  is truthy.
\<close>

theorem getInput_nested_wins:
  assumes "map_of ev name = Some upper"
    and "map_of ev ''payload'' = Some (JObj pl)"
    and "map_of pl name = Some nested"
    and "truthy nested"
  shows "getInput inp (JObj ev) name required = Inr nested"
  using assms by (simp add: getInput_def ebind_def Let_def)

theorem getInput_nested_wins_witness:
  "getInput (\<lambda>n. ''green'')
     (JObj [(''track'', JStr ''canary''), (''payload'', JObj [(''track'', JStr ''blue'')])])
     ''track'' True
   = Inr (JStr ''blue'')"
  by (rule getInput_nested_wins [where upper = "JStr ''canary''" and pl = "[(''track'', JStr ''blue'')]"])
     simp_all

section \<open>Value-file lists\<close>

lemma getValueFiles_truthy: "f \<in> set (getValueFiles parse v) \<Longrightarrow> truthy f"
proof (cases v)
  case (JStr s)
  assume f: "f \<in> set (getValueFiles parse v)"
  show ?thesis
  proof (cases "parse s")
    case None
    with f JStr show ?thesis by (simp add: getValueFiles_def split: if_splits)
  next
    case (Some u)
    with f JStr show ?thesis by (cases u) (simp_all add: getValueFiles_def)
  qed
qed (simp_all add: getValueFiles_def)

text \<open>
  C7. A text that parses as an array resolves to that array, in order, without its
  falsy entries; a text that does not parse resolves to the list of that one text, again
  without it when it is falsy (empty), so any non-empty unparsable text gives the
  single-entry list; a list given as such is filtered the same way; and whatever the
  input, every entry of the result is truthy.
\<close>

theorem getValueFiles_parse:
  "(parse s = Some (JArr xs) \<longrightarrow> getValueFiles parse (JStr s) = filter truthy xs)
   \<and> (parse s = None \<longrightarrow> getValueFiles parse (JStr s) = filter truthy [JStr s])
   \<and> (parse s = None \<and> s \<noteq> [] \<longrightarrow> getValueFiles parse (JStr s) = [JStr s])
   \<and> getValueFiles parse (JArr xs) = filter truthy xs
   \<and> (\<forall>f \<in> set (getValueFiles parse v). truthy f)"
proof -
  have "\<forall>f \<in> set (getValueFiles parse v). truthy f"
    using getValueFiles_truthy by blast
  moreover have "parse s = Some (JArr xs) \<longrightarrow> getValueFiles parse (JStr s) = filter truthy xs"
    by (simp add: getValueFiles_def)
  moreover have "parse s = None \<longrightarrow> getValueFiles parse (JStr s) = filter truthy [JStr s]"
    by (simp add: getValueFiles_def)
  moreover have "parse s = None \<and> s \<noteq> [] \<longrightarrow> getValueFiles parse (JStr s) = [JStr s]"
    by (simp add: getValueFiles_def)
  moreover have "getValueFiles parse (JArr xs) = filter truthy xs"
    by (simp add: getValueFiles_def)
  ultimately show ?thesis by blast
qed

theorem getValueFiles_parse_witness:
  "getValueFiles example_parse (JStr example_files_text) = [JStr ''a.yml'', JStr ''b.yml'']
   \<and> getValueFiles example_parse (JStr ''c.yml'') = [JStr ''c.yml'']
   \<and> getValueFiles example_parse (JStr []) = []
   \<and> getValueFiles example_parse (JArr [JStr ''a.yml'', JNull, JStr [], JStr ''b.yml''])
       = [JStr ''a.yml'', JStr ''b.yml'']"
  using getValueFiles_parse [of example_parse example_files_text "[JStr ''a.yml'', JStr ''b.yml'']" JNull]
    getValueFiles_parse [of example_parse "''c.yml''" "[]" JNull]
    getValueFiles_parse [of example_parse "[]" "[JStr ''a.yml'', JNull, JStr [], JStr ''b.yml'']" JNull]
  by (simp add: example_parse_def example_files_text_def)

section \<open>Canary flags of the upgrade command\<close>

text \<open>
  C6, as stated, fails: with the release named \<open>--set=service.enabled=false\<close>, the
  chart \<open>--set=ingress.enabled=false\<close> and no track given, the track resolves to
  \<open>stable\<close> and the command still holds both tokens, as its release and chart
  arguments.
\<close>

theorem canary_flags_counterexample:
  "(case resolve (example_externals flag_inputs JUndefined JNull) of
      Inl e \<Rightarrow> False
    | Inr p \<Rightarrow> track p = JStr ''stable''
        \<and> JStr ''--set=service.enabled=false'' \<in> set (upgradeArgs p)
        \<and> JStr ''--set=ingress.enabled=false'' \<in> set (upgradeArgs p))"
  by (simp add: resolve_def getInput_no_event ebind_def example_externals_def flag_inputs_def
        or_default_def releaseName_def chartName_def upgradeArgs_def)

text \<open>
  C6, amended. For every deployment request, the upgrade command holds both tokens
  \<open>--set=service.enabled=false\<close> and \<open>--set=ingress.enabled=false\<close> when the track is
  \<open>canary\<close>; for any other track it holds neither, provided the release name and the
  chart reference are not themselves one of the two tokens.
\<close>

theorem canary_flags_only_on_canary:
  "(track p = JStr ''canary'' \<longrightarrow>
      JStr ''--set=service.enabled=false'' \<in> set (upgradeArgs p)
      \<and> JStr ''--set=ingress.enabled=false'' \<in> set (upgradeArgs p))
   \<and> (track p \<noteq> JStr ''canary''
        \<and> release p \<notin> {JStr ''--set=service.enabled=false'', JStr ''--set=ingress.enabled=false''}
        \<and> chart p \<notin> {JStr ''--set=service.enabled=false'', JStr ''--set=ingress.enabled=false''} \<longrightarrow>
      JStr ''--set=service.enabled=false'' \<notin> set (upgradeArgs p)
      \<and> JStr ''--set=ingress.enabled=false'' \<notin> set (upgradeArgs p))"
  by (auto simp: upgradeArgs_def)

theorem canary_flags_only_on_canary_witness:
  "resolve (example_externals canary_inputs JUndefined JNull) = Inr example_request
   \<and> track example_request = JStr ''canary''
   \<and> JStr ''--set=service.enabled=false'' \<in> set (upgradeArgs example_request)
   \<and> JStr ''--set=ingress.enabled=false'' \<in> set (upgradeArgs example_request)
   \<and> track stable_request = JStr ''stable''
   \<and> JStr ''--set=service.enabled=false'' \<notin> set (upgradeArgs stable_request)
   \<and> JStr ''--set=ingress.enabled=false'' \<notin> set (upgradeArgs stable_request)"
proof -
  have "resolve (example_externals canary_inputs JUndefined JNull) = Inr example_request"
    by (simp add: resolve_def getInput_no_event ebind_def example_externals_def canary_inputs_def
          or_default_def releaseName_def chartName_def example_request_def getValues_def
          getValueFiles_def getSecrets_def)
  moreover have "track example_request = JStr ''canary''"
    by (simp add: example_request_def)
  moreover have "track stable_request = JStr ''stable''"
    by (simp add: stable_request_def)
  moreover have "release stable_request = JStr ''api''"
    and "chart stable_request = JStr ''/usr/src/charts/app''"
    by (simp_all add: stable_request_def example_request_def)
  ultimately show ?thesis
    using canary_flags_only_on_canary [of example_request]
      canary_flags_only_on_canary [of stable_request]
    by simp
qed

section \<open>Token injection\<close>

lemma map_of_upd_assoc:
  "map_of (upd_assoc kvs k x) k' = (if k' = k then Some x else map_of kvs k')"
  by (induction kvs) auto

lemma set_users_entries:
  "\<forall>c \<in> set cs. context_entry c \<Longrightarrow>
   \<exists>cs'. set_users cs = Inr cs' \<and> length cs' = length cs
     \<and> (\<forall>c \<in> set cs'. walk c [''context'', ''user''] = JStr userName)"
proof (induction cs)
  case Nil
  then show ?case by simp
next
  case (Cons c cs)
  then obtain cs' where cs': "set_users cs = Inr cs'" "length cs' = length cs"
    "\<forall>c \<in> set cs'. walk c [''context'', ''user''] = JStr userName"
    by auto
  from Cons.prems obtain ckvs inner
    where c: "c = JObj ckvs" "map_of ckvs ''context'' = Some (JObj inner)"
    by (auto simp: context_entry_def)
  define c' where
    "c' = JObj (upd_assoc ckvs ''context'' (JObj (upd_assoc inner ''user'' (JStr userName))))"
  have "set_users (c # cs) = Inr (c' # cs')"
    using c cs' by (simp add: ebind_def c'_def)
  moreover have "walk c' [''context'', ''user''] = JStr userName"
    by (simp add: map_of_upd_assoc c'_def)
  ultimately show ?case using cs' by auto
qed

text \<open>
  C2, as stated, fails: a document whose contexts section is the empty list has 0
  contexts, and the injection succeeds and writes the derived file.
\<close>

theorem addToken_empty_contexts_counterexample:
  "(case addTokenToKubeConfig
           (example_externals (\<lambda>n. []) JUndefined (JObj [(''contexts'', JArr [])]))
           (Some ''/kube/config'') (JStr ''s3cr3t'') (example_world ''/kube/config'') of
      (r, w', t) \<Rightarrow> r = Inr newKubeconfigPath \<and> files w' newKubeconfigPath \<noteq> None)"
  by (simp add: addTokenToKubeConfig_def kubeconfig_or_default_def example_externals_def
        example_world_def injectToken_def ebind_def newKubeconfigPath_def)

text \<open>
  C2, amended. For every credential document (a mapping whose users section is absent,
  falsy or a list) that has no contexts section (the member is absent, null or otherwise
  falsy), token injection fails with \<open>NoContextsDefined\<close> and leaves the files as they
  were: no derived credential file is produced.
\<close>

theorem addToken_no_contexts_section:
  assumes "files w (kubeconfig_or_default ext kp) = Some doc_text"
    and "yaml_load ext doc_text = Inr (JObj kvs)"
    and "get_prop (JObj kvs) ''users'' = Inr users"
    and "\<not> truthy users \<or> (\<exists>us. users = JArr us)"
    and "get_prop (JObj kvs) ''contexts'' = Inr contexts"
    and "\<not> truthy contexts"
  shows "addTokenToKubeConfig ext kp tok w = (Inl NoContextsDefined, w, [])"
proof -
  have "injectToken (JObj kvs) tok = Inl NoContextsDefined"
    using assms(3-6)
    by (auto simp: injectToken_def ebind_def Let_def map_of_upd_assoc split: option.splits)
  then show ?thesis
    using assms(1,2) by (simp add: addTokenToKubeConfig_def ebind_def)
qed

theorem addToken_no_contexts_section_witness:
  "addTokenToKubeConfig
     (example_externals (\<lambda>n. []) JUndefined (JObj [(''clusters'', JArr []), (''contexts'', JNull)]))
     None (JStr ''s3cr3t'') (example_world ''/root/.kube/config'')
   = (Inl NoContextsDefined, example_world ''/root/.kube/config'', [])"
  by (rule addToken_no_contexts_section [where doc_text = "''apiVersion: v1''" and users = JUndefined
        and contexts = JNull and kvs = "[(''clusters'', JArr []), (''contexts'', JNull)]"])
     (simp_all add: example_externals_def example_world_def kubeconfig_or_default_def)

text \<open>
  C3. For every credential document with N contexts (N at least 1, each entry a mapping
  with a \<open>context\<close> mapping) and no prior user identity (the users section is absent,
  falsy or the empty list), token injection succeeds: it writes the serialized derived
  document to the fixed path and returns that path; the derived document has N contexts,
  the user reference of each is the injected identity's name, there is exactly one user
  identity, it bears that name and its token is the supplied token.
\<close>

theorem addToken_binds_every_context:
  assumes "files w (kubeconfig_or_default ext kp) = Some doc_text"
    and "yaml_load ext doc_text = Inr (JObj kvs)"
    and "get_prop (JObj kvs) ''users'' = Inr users"
    and "\<not> truthy users \<or> users = JArr []"
    and "map_of kvs ''contexts'' = Some (JArr cs)"
    and "cs \<noteq> []"
    and "\<forall>c \<in> set cs. context_entry c"
  shows "\<exists>doc' cs'.
           addTokenToKubeConfig ext kp tok w
             = (Inr newKubeconfigPath,
                w\<lparr>files := (files w)(newKubeconfigPath \<mapsto> yaml_dump ext doc')\<rparr>, [])
         \<and> get_prop doc' ''contexts'' = Inr (JArr cs')
         \<and> length cs' = length cs
         \<and> (\<forall>c \<in> set cs'. walk c [''context'', ''user''] = JStr userName)
         \<and> get_prop doc' ''users''
             = Inr (JArr [JObj [(''name'', JStr userName), (''user'', JObj [(''token'', tok)])]])"
proof -
  obtain cs' where cs': "set_users cs = Inr cs'" "length cs' = length cs"
    "\<forall>c \<in> set cs'. walk c [''context'', ''user''] = JStr userName"
    using set_users_entries [OF assms(7)] by blast
  define newUser where
    "newUser = JObj [(''name'', JStr userName), (''user'', JObj [(''token'', tok)])]"
  define doc' where
    "doc' = JObj (upd_assoc (upd_assoc kvs ''users'' (JArr [newUser])) ''contexts'' (JArr cs'))"
  have inj: "injectToken (JObj kvs) tok = Inr doc'"
    using assms(3,4,5) cs'(1)
    by (auto simp: injectToken_def ebind_def Let_def map_of_upd_assoc doc'_def newUser_def)
  have "addTokenToKubeConfig ext kp tok w
          = (Inr newKubeconfigPath,
             w\<lparr>files := (files w)(newKubeconfigPath \<mapsto> yaml_dump ext doc')\<rparr>, [])"
    using assms(1,2) inj by (simp add: addTokenToKubeConfig_def ebind_def)
  moreover have "get_prop doc' ''contexts'' = Inr (JArr cs')"
    by (simp add: doc'_def map_of_upd_assoc)
  moreover have "get_prop doc' ''users'' = Inr (JArr [newUser])"
    by (simp add: doc'_def map_of_upd_assoc)
  ultimately show ?thesis using cs'(2,3) unfolding newUser_def by blast
qed

theorem addToken_binds_every_context_witness:
  "\<exists>doc' cs'.
     addTokenToKubeConfig
       (example_externals (\<lambda>n. []) JUndefined
          (JObj [(''apiVersion'', JStr ''v1''), (''contexts'', JArr example_contexts)]))
       (Some ''/kube/config'') (JStr ''s3cr3t'') (example_world ''/kube/config'')
       = (Inr newKubeconfigPath,
          (example_world ''/kube/config'')
            \<lparr>files := (files (example_world ''/kube/config''))
               (newKubeconfigPath \<mapsto>
                  yaml_dump (example_externals (\<lambda>n. []) JUndefined
                    (JObj [(''apiVersion'', JStr ''v1''), (''contexts'', JArr example_contexts)])) doc')\<rparr>,
          [])
     \<and> get_prop doc' ''contexts'' = Inr (JArr cs')
     \<and> length cs' = length example_contexts
     \<and> (\<forall>c \<in> set cs'. walk c [''context'', ''user''] = JStr userName)
     \<and> get_prop doc' ''users''
         = Inr (JArr [JObj [(''name'', JStr userName), (''user'', JObj [(''token'', JStr ''s3cr3t'')])]])"
  by (rule addToken_binds_every_context [where doc_text = "''apiVersion: v1''" and users = JUndefined
        and kvs = "[(''apiVersion'', JStr ''v1''), (''contexts'', JArr example_contexts)]"])
     (simp_all add: example_externals_def example_world_def kubeconfig_or_default_def
        example_contexts_def context_entry_def)

section \<open>Rendering twice\<close>

lemma mustache_render_plain: "\<not> contains_open s \<Longrightarrow> mustache_render s view = Inr s"
proof (induction s)
  case Nil
  show ?case by (subst mustache_render.simps) simp
next
  case (Cons c cs)
  then have "take 3 (c # cs) \<noteq> open_tag" and "mustache_render cs view = Inr cs"
    by simp_all
  then show ?case by (subst mustache_render.simps) simp
qed

lemma renderFile_Inr:
  "renderFile f data fs = Inr fs' \<Longrightarrow> \<exists>p c r. f = JStr p \<and> fs p = Some c \<and> fs' = fs(p \<mapsto> r)"
  by (auto simp: renderFile_def split: jsval.splits option.splits sum.splits)

lemma renderFiles_dom: "renderFiles fl data fs = (None, fs1) \<Longrightarrow> dom fs \<subseteq> dom fs1"
proof (induction fl arbitrary: fs)
  case Nil
  then show ?case by simp
next
  case (Cons f fl)
  from Cons.prems obtain fs'
    where fs': "renderFile f data fs = Inr fs'" "renderFiles fl data fs' = (None, fs1)"
    by (auto split: sum.splits)
  from renderFile_Inr [OF fs'(1)] have "dom fs \<subseteq> dom fs'" by auto
  with Cons.IH [OF fs'(2)] show ?case by blast
qed

lemma renderFiles_paths:
  "renderFiles fl data fs = (None, fs1) \<Longrightarrow> f \<in> set fl \<Longrightarrow> \<exists>p. f = JStr p \<and> p \<in> dom fs1"
proof (induction fl arbitrary: fs)
  case Nil
  then show ?case by simp
next
  case (Cons g fl)
  from Cons.prems(1) obtain fs'
    where fs': "renderFile g data fs = Inr fs'" "renderFiles fl data fs' = (None, fs1)"
    by (auto split: sum.splits)
  show ?case
  proof (cases "f = g")
    case True
    from renderFile_Inr [OF fs'(1)] obtain p where "g = JStr p" "p \<in> dom fs'" by auto
    with renderFiles_dom [OF fs'(2)] True show ?thesis by auto
  next
    case False
    with Cons.prems(2) have "f \<in> set fl" by simp
    from Cons.IH [OF fs'(2) this] show ?thesis .
  qed
qed

lemma renderFiles_plain:
  "\<forall>f \<in> set fl. \<exists>p c. f = JStr p \<and> fs p = Some c \<and> \<not> contains_open c \<Longrightarrow>
   renderFiles fl data fs = (None, fs)"
proof (induction fl)
  case Nil
  show ?case by simp
next
  case (Cons f fl)
  then obtain p c where f: "f = JStr p" "fs p = Some c" "\<not> contains_open c" by auto
  then have "renderFile f data fs = Inr fs"
    by (simp add: renderFile_def mustache_render_plain map_upd_triv)
  with Cons show ?case by simp
qed

lemma render_nil: "mustache_render [] view = Inr []"
  by (subst mustache_render.simps) simp

lemma render_text:
  "take 3 (c # cs) \<noteq> open_tag \<Longrightarrow>
   mustache_render (c # cs) view
     = (case mustache_render cs view of Inl e \<Rightarrow> Inl e | Inr out \<Rightarrow> Inr (c # out))"
  by (subst mustache_render.simps) (simp split: sum.splits)

lemma render_tag:
  "mustache_render (CHR ''$'' # CHR ''{'' # CHR ''{'' # r) view
     = (case parse_tag r of
          Inl e \<Rightarrow> Inl e
        | Inr (name, rest) \<Rightarrow>
            (case mustache_render rest view of
               Inl e \<Rightarrow> Inl e
             | Inr out \<Rightarrow> Inr (render_name view name @ out)))"
  by (subst mustache_render.simps) (simp add: open_tag_def)

lemma parse_tag_a: "parse_tag ''secrets.a}}'' = Inr (''secrets.a'', [])"
  by (simp add: parse_tag_def is_space_def sigils_def close_tag_def rstrip_def)

lemma parse_tag_b: "parse_tag ''secrets.b}}'' = Inr (''secrets.b'', [])"
  by (simp add: parse_tag_def is_space_def sigils_def close_tag_def rstrip_def)

lemma render_name_a: "render_name example_view ''secrets.a'' = ''${{secrets.b}}''"
  by (simp add: render_name_def lookup_name_def example_view_def escapeHtml_def escape_char_def)

lemma render_name_b: "render_name example_view ''secrets.b'' = ''hunter2''"
  by (simp add: render_name_def lookup_name_def example_view_def escapeHtml_def escape_char_def)

lemma first_render:
  "mustache_render ''token: ${{secrets.a}}'' example_view = Inr ''token: ${{secrets.b}}''"
  by (simp add: render_text render_tag parse_tag_a render_nil render_name_a open_tag_def)

lemma second_render:
  "mustache_render ''token: ${{secrets.b}}'' example_view = Inr ''token: hunter2''"
  by (simp add: render_text render_tag parse_tag_b render_nil render_name_b open_tag_def)

text \<open>
  C8, as stated, fails: the file holds \<open>token: ${{secrets.a}}\<close> and the context gives
  \<open>secrets.a\<close> the text \<open>${{secrets.b}}\<close>. The first rendering leaves
  \<open>token: ${{secrets.b}}\<close> in the file, the second one, with the same context, turns
  it into \<open>token: hunter2\<close>.
\<close>

theorem renderFiles_twice_counterexample:
  "snd (renderFiles [JStr ''v.yml''] example_view [''v.yml'' \<mapsto> ''token: ${{secrets.a}}'']) ''v.yml''
     = Some ''token: ${{secrets.b}}''
   \<and> snd (renderFiles [JStr ''v.yml''] example_view
           (snd (renderFiles [JStr ''v.yml''] example_view [''v.yml'' \<mapsto> ''token: ${{secrets.a}}''])))
         ''v.yml''
     = Some ''token: hunter2''"
  by (simp add: renderFile_def first_render second_render)

text \<open>
  C8, amended. For every list of value files and every data context, if a rendering
  succeeds and leaves no opening delimiter \<open>${{\<close> in any of the files, rendering them
  again with the same context succeeds and leaves every file byte for byte as it is.
\<close>

theorem renderFiles_idempotent_without_tags:
  assumes "renderFiles fl data fs = (None, fs1)"
    and "\<forall>p c. JStr p \<in> set fl \<and> fs1 p = Some c \<longrightarrow> \<not> contains_open c"
  shows "renderFiles fl data fs1 = (None, fs1)"
proof (rule renderFiles_plain, rule ballI)
  fix f assume "f \<in> set fl"
  from renderFiles_paths [OF assms(1) this] obtain p c where "f = JStr p" "fs1 p = Some c"
    by auto
  with assms(2) \<open>f \<in> set fl\<close>
  show "\<exists>p c. f = JStr p \<and> fs1 p = Some c \<and> \<not> contains_open c" by blast
qed

theorem renderFiles_idempotent_without_tags_witness:
  "renderFiles [JStr ''v.yml''] example_view [''v.yml'' \<mapsto> ''token: ${{secrets.b}}'']
     = (None, [''v.yml'' \<mapsto> ''token: hunter2''])
   \<and> renderFiles [JStr ''v.yml''] example_view [''v.yml'' \<mapsto> ''token: hunter2'']
     = (None, [''v.yml'' \<mapsto> ''token: hunter2''])"
proof -
  have a: "renderFiles [JStr ''v.yml''] example_view [''v.yml'' \<mapsto> ''token: ${{secrets.b}}'']
     = (None, [''v.yml'' \<mapsto> ''token: hunter2''])"
    by (simp add: renderFile_def second_render)
  have b: "\<forall>p c. JStr p \<in> set [JStr ''v.yml''] \<and> [''v.yml'' \<mapsto> ''token: hunter2''] p = Some c
             \<longrightarrow> \<not> contains_open c"
    by (simp add: open_tag_def)
  show ?thesis using a renderFiles_idempotent_without_tags [OF a b] by blast
qed

section \<open>Status reports\<close>

lemma failures_append: "failures (t @ t') = failures t @ failures t'"
  by (induction t rule: failures.induct) simp_all

lemma quiet_sbind: "quiet m \<Longrightarrow> (\<And>x. quiet (f x)) \<Longrightarrow> quiet (sbind m f)"
  unfolding quiet_def sbind_def
  by (auto simp: failures_append split: prod.splits sum.splits)

lemma quiet_if: "quiet a \<Longrightarrow> quiet b \<Longrightarrow> quiet (if c then a else b)"
  by simp

lemma quiet_sreturn: "quiet (sreturn x)"
  by (simp add: quiet_def sreturn_def)

lemma quiet_lift: "quiet (lift r)"
  by (simp add: quiet_def lift_def)

lemma quiet_setenv: "quiet (setenv k v)"
  by (simp add: quiet_def setenv_def)

lemma quiet_writeFile: "quiet (writeFile path d)"
  by (auto simp: quiet_def writeFile_def split: jsval.splits)

lemma quiet_exec: "quiet (exec ext cmd args i)"
  by (simp add: quiet_def exec_def)

lemma quiet_addToken: "quiet (\<lambda>w. addTokenToKubeConfig ext (g w) tok w)"
  by (auto simp: quiet_def addTokenToKubeConfig_def Let_def split: option.splits sum.splits)

lemma quiet_renderStep: "quiet (renderStep fl data)"
  by (auto simp: quiet_def renderStep_def split: prod.splits option.splits)

lemma quiet_setupKubeconfig: "quiet (setupKubeconfig ext)"
  by (auto simp: quiet_def setupKubeconfig_def sbind_def setenv_def writeFile_def sreturn_def)

lemma quiet_addRepository: "quiet (addRepository ext p)"
  unfolding addRepository_def
  by (intro quiet_if quiet_sbind quiet_exec quiet_sreturn)

lemma quiet_deploy: "quiet (deploy ext)"
  unfolding deploy_def
  by (intro quiet_sbind quiet_if quiet_lift quiet_setenv quiet_setupKubeconfig quiet_writeFile
        quiet_addToken quiet_addRepository quiet_renderStep quiet_exec quiet_sreturn)

lemma status_try_quiet: "status_try ext state = Inr t \<Longrightarrow> failures t = []"
  by (auto simp: status_try_def ebind_def Let_def split: if_splits sum.splits prod.splits)

lemma status_result: "\<exists>t. status ext state w = (Inr (), w, t) \<and> failures t = []"
  by (cases "status_try ext state") (auto simp: status_def status_try_quiet)

lemma run_shape:
  "\<exists>t. run ext w = (Inr (), fst (snd (deploy ext w)), t)
     \<and> failures t = (case fst (deploy ext w) of Inl e \<Rightarrow> [e] | Inr v \<Rightarrow> [])"
proof -
  obtain t1 where t1: "status ext ''pending'' w = (Inr (), w, t1)" "failures t1 = []"
    using status_result by blast
  obtain r w' t2 where d: "deploy ext w = (r, w', t2)"
    by (cases "deploy ext w") auto
  have t2: "failures t2 = []"
    using quiet_deploy d unfolding quiet_def by blast
  show ?thesis
  proof (cases r)
    case (Inl e)
    obtain t4 where t4: "status ext ''failure'' w' = (Inr (), w', t4)" "failures t4 = []"
      using status_result by blast
    have "run ext w = (Inr (), w', (t1 @ t2) @ [LogError e, SetFailed e] @ t4)"
      using t1 d Inl t4 by (simp add: run_def sbind_def)
    then show ?thesis using d Inl t1 t2 t4 by (simp add: failures_append)
  next
    case (Inr v)
    obtain t3 where t3: "status ext (if v = JStr ''remove'' then ''inactive'' else ''success'') w'
        = (Inr (), w', t3)" "failures t3 = []"
      using status_result by blast
    have "run ext w = (Inr (), w', t1 @ t2 @ t3)"
      using t1 d Inr t3 by (simp add: run_def sbind_def)
    then show ?thesis using d Inr t1 t2 t3 by (simp add: failures_append)
  qed
qed

lemma exec_api: "exec (ext\<lparr>github_GitHub := g, createDeploymentStatus := f\<rparr>) = exec ext"
  by (rule ext)+ (simp add: exec_def)

lemma setupKubeconfig_api:
  "setupKubeconfig (ext\<lparr>github_GitHub := g, createDeploymentStatus := f\<rparr>) = setupKubeconfig ext"
  by (rule ext) (simp add: setupKubeconfig_def)

lemma addToken_api:
  "addTokenToKubeConfig (ext\<lparr>github_GitHub := g, createDeploymentStatus := f\<rparr>) = addTokenToKubeConfig ext"
  by (rule ext)+
     (auto simp: addTokenToKubeConfig_def kubeconfig_or_default_def ebind_def
        split: option.splits sum.splits)

lemma resolve_api: "resolve (ext\<lparr>github_GitHub := g, createDeploymentStatus := f\<rparr>) = resolve ext"
  by (simp add: resolve_def)

lemma deploy_api: "deploy (ext\<lparr>github_GitHub := g, createDeploymentStatus := f\<rparr>) = deploy ext"
  by (simp add: deploy_def resolve_api exec_api setupKubeconfig_api addToken_api addRepository_def
        cong: if_cong)

text \<open>
  C9. Status reporting never fails the run. For every state: the report never raises and
  leaves the files and the environment alone; with no tracking token configured or no
  deployment event present it only logs the debug line; when it is configured and the
  external system cannot be reached, the failure is logged as a warning and dropped. The
  run itself never rejects, it is marked failed exactly when the deployment between the
  reports raises, and neither its final state nor its failure mark depends on how the
  status client and API behave.
\<close>

theorem status_never_fails_run:
  "(\<exists>t. status ext state w = (Inr (), w, t))
   \<and> (core_getInput ext ''token'' = [] \<or> \<not> truthy (payload_deployment ext) \<longrightarrow>
        status ext state w = (Inr (), w, [Debug ''not setting deployment status'']))
   \<and> (core_getInput ext ''token'' \<noteq> [] \<and> truthy (payload_deployment ext)
        \<and> github_GitHub ext (core_getInput ext ''token'') = Inr ()
        \<and> context_repo ext = Inr (owner, repo)
        \<and> (\<forall>request. createDeploymentStatus ext request = Inl e) \<longrightarrow>
        status ext state w = (Inr (), w, [Warning e]))
   \<and> fst (run ext w) = Inr ()
   \<and> failures (snd (snd (run ext w))) = (case fst (deploy ext w) of Inl e \<Rightarrow> [e] | Inr v \<Rightarrow> [])
   \<and> fst (snd (run (ext\<lparr>github_GitHub := g, createDeploymentStatus := f\<rparr>) w))
       = fst (snd (run ext w))
   \<and> failures (snd (snd (run (ext\<lparr>github_GitHub := g, createDeploymentStatus := f\<rparr>) w)))
       = failures (snd (snd (run ext w)))"
proof -
  have a: "\<exists>t. status ext state w = (Inr (), w, t)"
    using status_result by blast
  have b: "core_getInput ext ''token'' = [] \<or> \<not> truthy (payload_deployment ext) \<longrightarrow>
        status ext state w = (Inr (), w, [Debug ''not setting deployment status''])"
    by (auto simp: status_def status_try_def)
  have c: "core_getInput ext ''token'' \<noteq> [] \<and> truthy (payload_deployment ext)
        \<and> github_GitHub ext (core_getInput ext ''token'') = Inr ()
        \<and> context_repo ext = Inr (owner, repo)
        \<and> (\<forall>request. createDeploymentStatus ext request = Inl e) \<longrightarrow>
        status ext state w = (Inr (), w, [Warning e])"
  proof (intro impI, elim conjE)
    assume h: "core_getInput ext ''token'' \<noteq> []" "truthy (payload_deployment ext)"
      "github_GitHub ext (core_getInput ext ''token'') = Inr ()"
      "context_repo ext = Inr (owner, repo)"
      "\<forall>request. createDeploymentStatus ext request = Inl e"
    obtain ident where "get_prop (payload_deployment ext) ''id'' = Inr ident"
      using get_prop_truthy [OF h(2)] by blast
    with h have "status_try ext state = Inl e"
      by (simp add: status_try_def ebind_def Let_def)
    then show "status ext state w = (Inr (), w, [Warning e])"
      by (simp add: status_def)
  qed
  let ?ext' = "ext\<lparr>github_GitHub := g, createDeploymentStatus := f\<rparr>"
  obtain t where t: "run ext w = (Inr (), fst (snd (deploy ext w)), t)"
    "failures t = (case fst (deploy ext w) of Inl e \<Rightarrow> [e] | Inr v \<Rightarrow> [])"
    using run_shape by blast
  obtain t' where t': "run ?ext' w = (Inr (), fst (snd (deploy ?ext' w)), t')"
    "failures t' = (case fst (deploy ?ext' w) of Inl e \<Rightarrow> [e] | Inr v \<Rightarrow> [])"
    using run_shape by blast
  have d: "fst (run ext w) = Inr ()" using t by simp
  have e: "failures (snd (snd (run ext w))) = (case fst (deploy ext w) of Inl e \<Rightarrow> [e] | Inr v \<Rightarrow> [])"
    using t by simp
  have f: "fst (snd (run ?ext' w)) = fst (snd (run ext w))"
    using t t' by (simp add: deploy_api)
  have g: "failures (snd (snd (run ?ext' w))) = failures (snd (snd (run ext w)))"
    using t t' by (simp add: deploy_api)
  from a b c d e f g show ?thesis by blast
qed


lemma getInput_example_event:
  "getInput inp example_event name required =
     (let v = (if inp name = [] \<and> CHR ''-'' \<in> set name
               then inp (replace_first CHR ''-'' CHR ''_'' name) else inp name)
      in if name = ''id'' then Inr (JNum 42)
         else if name = ''payload'' then Inr (JObj [])
         else if required \<and> v = [] then Inl (MissingInput name) else Inr (JStr v))"
  by (simp add: getInput_def ebind_def Let_def example_event_def)

lemma resolve_reporting:
  "resolve (example_externals reporting_inputs example_event JNull) = Inr example_request"
  by (simp add: resolve_def getInput_example_event ebind_def example_externals_def
        reporting_inputs_def canary_inputs_def
        or_default_def releaseName_def chartName_def example_request_def getValues_def
        getValueFiles_def getSecrets_def)

lemma render_braces: "mustache_render ''{}'' view = Inr ''{}''"
  by (rule mustache_render_plain) (simp add: open_tag_def)

lemma example_externals_fields:
  "core_getInput (example_externals i e d) = i"
  "payload_deployment (example_externals i e d) = e"
  "exec_exec (example_externals i e d) = (\<lambda>cmd args ignoreReturnCode. Inr ())"
  by (simp_all add: example_externals_def)

lemma deploy_reporting:
  "fst (deploy (example_externals reporting_inputs example_event JNull) (example_world ''/kube/config''))
     = Inr (JStr [])"
  by (simp add: deploy_def resolve_reporting sbind_def lift_def setenv_def setupKubeconfig_def
        env_truthy_def writeFile_def sreturn_def addRepository_def renderStep_def renderFile_def
        render_braces exec_def upgradeArgs_def example_request_def example_world_def
        example_externals_fields)

theorem status_never_fails_run_witness:
  "status (example_externals canary_inputs example_event JNull) ''pending'' (example_world ''/kube/config'')
     = (Inr (), example_world ''/kube/config'', [Debug ''not setting deployment status''])
   \<and> status (example_externals reporting_inputs example_event JNull) ''success''
         (example_world ''/kube/config'')
     = (Inr (), example_world ''/kube/config'', [Warning (StatusReportFailure ''503'')])
   \<and> fst (run (example_externals reporting_inputs example_event JNull) (example_world ''/kube/config''))
     = Inr ()
   \<and> failures (snd (snd (run (example_externals reporting_inputs example_event JNull)
         (example_world ''/kube/config'')))) = []"
proof -
  have u: "core_getInput (example_externals canary_inputs example_event JNull) ''token'' = []"
    by (simp add: example_externals_def canary_inputs_def)
  have c: "core_getInput (example_externals reporting_inputs example_event JNull) ''token'' \<noteq> []
      \<and> truthy (payload_deployment (example_externals reporting_inputs example_event JNull))
      \<and> github_GitHub (example_externals reporting_inputs example_event JNull)
          (core_getInput (example_externals reporting_inputs example_event JNull) ''token'') = Inr ()
      \<and> context_repo (example_externals reporting_inputs example_event JNull) = Inr (''acme'', ''shop'')
      \<and> (\<forall>request. createDeploymentStatus (example_externals reporting_inputs example_event JNull) request
            = Inl (StatusReportFailure ''503''))"
    by (simp add: example_externals_def reporting_inputs_def example_event_def)
  show ?thesis
    using u c deploy_reporting
      status_never_fails_run [of "example_externals canary_inputs example_event JNull" "''pending''"
        "example_world ''/kube/config''"]
      status_never_fails_run [of "example_externals reporting_inputs example_event JNull" "''success''"
        "example_world ''/kube/config''" "''acme''" "''shop''" "StatusReportFailure ''503''"]
    by simp
qed

end
